theory Spec2Isabelle
  imports Main "HOL-Library.Multiset" "HOL-Library.List_Lexorder" "HOL-Library.Char_ord"
begin

section \<open>Rate limiter (src/api/rate-limiter.ts)\<close>

text \<open>
  The limiter keeps a \<open>Map\<close> from client key to an entry \<open>{count, resetAt}\<close>.
  \<open>Date.now()\<close> is an input of \<open>check\<close>: a number of milliseconds, an integer.
\<close>

record RateLimitEntry =
  entry_count :: int
  entry_resetAt :: int

record RateLimitConfig =
  maxRequests :: int
  windowMs :: int

record RateLimitResult =
  allowed :: bool
  remaining :: int
  limit :: int
  resetAt :: int
  retryAfter :: "int option"

record RateLimiter =
  store :: "string \<rightharpoonup> RateLimitEntry"
  config :: RateLimitConfig

text \<open>The constructor: \<open>maxRequests ?? 60\<close>, \<open>windowMs ?? 60 * 1000\<close>, an empty store.\<close>

definition new_RateLimiter :: "int option \<Rightarrow> int option \<Rightarrow> RateLimiter" where
  "new_RateLimiter mr wm =
     \<lparr> store = Map.empty,
       config = \<lparr> maxRequests = (case mr of None \<Rightarrow> 60 | Some m \<Rightarrow> m),
                  windowMs = (case wm of None \<Rightarrow> 60 * 1000 | Some w \<Rightarrow> w) \<rparr> \<rparr>"

text \<open>\<open>Math.ceil(x / 1000)\<close> on an integer \<open>x\<close>.\<close>

definition ceil_div_1000 :: "int \<Rightarrow> int" where
  "ceil_div_1000 x = - ((- x) div 1000)"

text \<open>
  \<open>check(key)\<close> at time \<open>now\<close>. The three branches are those of the source, in its order:
  no entry or expired window; within the window and under the limit (the entry's count
  is incremented in place); rate limited (the store is left as it is).
\<close>

definition check :: "int \<Rightarrow> string \<Rightarrow> RateLimiter \<Rightarrow> RateLimitResult \<times> RateLimiter" where
  "check now key L =
     (let cfg = config L in
      case store L key of
        None \<Rightarrow>
          (let r = now + windowMs cfg in
           (\<lparr> allowed = True, remaining = maxRequests cfg - 1, limit = maxRequests cfg,
               resetAt = r, retryAfter = None \<rparr>,
            L\<lparr> store := (store L)(key \<mapsto> \<lparr> entry_count = 1, entry_resetAt = r \<rparr>) \<rparr>))
      | Some entry \<Rightarrow>
          if now > entry_resetAt entry then
            (let r = now + windowMs cfg in
             (\<lparr> allowed = True, remaining = maxRequests cfg - 1, limit = maxRequests cfg,
                 resetAt = r, retryAfter = None \<rparr>,
              L\<lparr> store := (store L)(key \<mapsto> \<lparr> entry_count = 1, entry_resetAt = r \<rparr>) \<rparr>))
          else if entry_count entry < maxRequests cfg then
            (let entry' = entry\<lparr> entry_count := entry_count entry + 1 \<rparr> in
             (\<lparr> allowed = True, remaining = maxRequests cfg - entry_count entry',
                 limit = maxRequests cfg, resetAt = entry_resetAt entry', retryAfter = None \<rparr>,
              L\<lparr> store := (store L)(key \<mapsto> entry') \<rparr>))
          else
            (\<lparr> allowed = False, remaining = 0, limit = maxRequests cfg,
                resetAt = entry_resetAt entry,
                retryAfter = Some (ceil_div_1000 (entry_resetAt entry - now)) \<rparr>,
             L))"

text \<open>\<open>cleanup()\<close>: the periodic sweep deletes every entry whose window has expired.\<close>

definition cleanup :: "int \<Rightarrow> RateLimiter \<Rightarrow> RateLimiter" where
  "cleanup now L =
     L\<lparr> store := (\<lambda>k. case store L k of
                        None \<Rightarrow> None
                      | Some e \<Rightarrow> if now > entry_resetAt e then None else Some e) \<rparr>"

text \<open>Whether \<open>check\<close> at \<open>now\<close> takes its first branch: no entry, or the window is over.\<close>

definition starts_window :: "int \<Rightarrow> string \<Rightarrow> RateLimiter \<Rightarrow> bool" where
  "starts_window now key L =
     (case store L key of None \<Rightarrow> True | Some e \<Rightarrow> now > entry_resetAt e)"

section \<open>Session store (the \<open>DevCopilotAgent\<close> durable object and its types)\<close>

subsection \<open>Types of the conversation and of the project context\<close>

datatype Role = User | Assistant | System

datatype CloudflareService =
    Workers | KV | D1 | R2 | DurableObjects | Queues | Vectorize | WorkersAI
  | Pages | Hyperdrive | BrowserRendering | EmailWorkers

record MessageMetadata =
  toolName :: "string option"
  toolResult :: "string option"
  codeLanguage :: "string option"
  hasCode :: "bool option"
  processingTime :: "int option"

record ConversationMessage =
  msg_id :: string
  msg_role :: Role
  msg_content :: string
  msg_timestamp :: string
  msg_metadata :: "MessageMetadata option"

record ResolvedIssue =
  issue_timestamp :: string
  issue :: string
  solution :: string
  errorCodes :: "string list option"
  affectedFiles :: "string list option"

text \<open>
  A \<open>ProjectContext\<close> as the code reads it: every field is optional, and \<open>None\<close> stands
  for a field that is missing, \<open>undefined\<close> or \<open>null\<close> (the code tells them apart nowhere).
\<close>

record ProjectContext =
  workerCode :: "string option"
  errorLogs :: "string list option"
  resolvedIssues :: "ResolvedIssue list option"
  cloudflareServices :: "CloudflareService list option"
  projectName :: "string option"
  lastUpdated :: "string option"

definition emptyContext :: ProjectContext where
  "emptyContext =
     \<lparr> workerCode = None, errorLogs = None, resolvedIssues = None,
       cloudflareServices = None, projectName = None, lastUpdated = None \<rparr>"

text \<open>
  A property of the object literal passed to \<open>updateProjectContext\<close>. The object spread
  \<open>{...existing, ...context}\<close> copies every own property of \<open>context\<close>, also one whose
  value is \<open>undefined\<close>, so a \<open>Partial<ProjectContext>\<close> has three cases for each
  field: the key is absent, the key is there with the value \<open>undefined\<close> (as in
  \<open>{ workerCode: code, projectName }\<close> of \<open>setWorkerCode\<close> called without a
  project name), or the key is there with a value.
\<close>

datatype 'a field = Absent | Undefined | Value 'a

record PartialContext =
  p_workerCode :: "string field"
  p_errorLogs :: "string list field"
  p_resolvedIssues :: "ResolvedIssue list field"
  p_cloudflareServices :: "CloudflareService list field"
  p_projectName :: "string field"
  p_lastUpdated :: "string field"

definition noUpdate :: PartialContext where
  "noUpdate =
     \<lparr> p_workerCode = Absent, p_errorLogs = Absent, p_resolvedIssues = Absent,
       p_cloudflareServices = Absent, p_projectName = Absent, p_lastUpdated = Absent \<rparr>"

record SessionInfo =
  sessionId :: string
  createdAt :: string
  lastActivityAt :: string
  messageCount :: int
  isActive :: bool

record GetHistoryOptions =
  opt_limit :: "int option"
  opt_role :: "Role option"
  opt_after :: "string option"
  opt_before :: "string option"

record StateOperationResult =
  success :: bool
  error :: "string option"
  data :: "ProjectContext option"

datatype js_error = SyntaxError | ConstraintError | Error string

subsection \<open>The three tables\<close>

text \<open>
  A TEXT column that holds JSON. \<open>Null\<close> is SQL NULL and \<open>Empty\<close> the empty string,
  both falsy in \<open>row.col ? JSON.parse(row.col) : undefined\<close>; \<open>Json v\<close> is the text
  \<open>JSON.stringify(v)\<close>, which is not empty and which \<open>JSON.parse\<close> reads back as \<open>v\<close>;
  \<open>Malformed\<close> is any other text, on which \<open>JSON.parse\<close> throws a SyntaxError.
\<close>

datatype 'a column = Null | Empty | Json 'a | Malformed

record message_row =
  row_id :: string
  row_role :: Role
  row_content :: string
  row_timestamp :: string
  row_metadata :: "MessageMetadata column"

record context_row =
  worker_code :: "string option"
  error_logs :: "string list column"
  resolved_issues :: "ResolvedIssue list column"
  cloudflare_services :: "CloudflareService list column"
  project_name :: "string option"
  last_updated :: "string option"

record session_row =
  session_id :: string
  created_at :: string
  last_activity_at :: string
  message_count :: int
  is_active :: int

text \<open>
  The state of one durable object: table \<open>messages\<close> in storage order (its primary key
  \<open>id\<close> is enforced by \<open>addMessage\<close> below), the tables \<open>project_context\<close> and
  \<open>session_info\<close>, each of at most one row (\<open>CHECK(id = 1)\<close>), and the field
  \<open>sessionCache\<close>.
\<close>

record DevCopilotAgent =
  messages :: "message_row list"
  project_context :: "context_row option"
  session_info :: "session_row option"
  sessionCache :: "SessionInfo option"

definition emptyStorage :: DevCopilotAgent where
  "emptyStorage =
     \<lparr> messages = [], project_context = None, session_info = None, sessionCache = None \<rparr>"

text \<open>
  \<open>.one()\<close> on the cursor of \<open>SELECT * FROM t WHERE id = 1\<close>, for a table of at most
  one row: the row when there is one. With no row the cursor of the Durable Objects
  SQL API throws; it does not return a falsy value.
\<close>

definition one_row :: "'a option \<Rightarrow> js_error + 'a" where
  "one_row rows =
     (case rows of
        None \<Rightarrow> Inl (Error ''Expected exactly one result from SQL query, but got no results'')
      | Some r \<Rightarrow> Inr r)"

text \<open>The truthiness of a row object in \<open>if (existing)\<close> and \<open>if (!row)\<close>: an object is truthy.\<close>

definition truthyObject :: "'a \<Rightarrow> bool" where
  "truthyObject r = True"

text \<open>
  \<open>error.message\<close>. For the errors raised by the engine on a constraint and by
  \<open>JSON.parse\<close> the model keeps the kind of the error, not its wording.
\<close>

definition message :: "js_error \<Rightarrow> string" where
  "message e =
     (case e of
        Error m \<Rightarrow> m
      | SyntaxError \<Rightarrow> ''SyntaxError''
      | ConstraintError \<Rightarrow> ''ConstraintError'')"

subsection \<open>Identifiers and the session row\<close>

text \<open>The decimal digits of a number, as the template literal prints \<open>Date.now()\<close>.\<close>

definition digitChar :: "nat \<Rightarrow> char" where
  "digitChar d = ''0123456789'' ! d"

fun decimal :: "nat \<Rightarrow> string" where
  "decimal n =
     (if n < 10 then [digitChar n]
      else decimal (n div 10) @ [digitChar (n mod 10)])"

declare decimal.simps [simp del]

text \<open>
  \<open>generateId()\<close>: \<open>`${Date.now()}-${Math.random().toString(36).substring(2, 11)}`\<close>.
  The clock reading \<open>ms\<close> and the random characters \<open>rnd\<close> are inputs.
\<close>

definition generateId :: "nat \<Rightarrow> string \<Rightarrow> string" where
  "generateId ms rnd = decimal ms @ ''-'' @ rnd"

text \<open>
  \<open>ensureSession()\<close>. \<open>now\<close> is what \<open>getCurrentTimestamp()\<close> returns, \<open>ms\<close> and \<open>rnd\<close>
  are what \<open>generateId()\<close> reads. The method has no \<open>try\<close>: an error of \<open>.one()\<close>
  leaves it. The statements after \<open>if (existing)\<close>, which create the session, run
  only when \<open>.one()\<close> returns a falsy value.
\<close>

definition ensureSession ::
  "string \<Rightarrow> nat \<Rightarrow> string \<Rightarrow> DevCopilotAgent \<Rightarrow> js_error + (SessionInfo \<times> DevCopilotAgent)" where
  "ensureSession now ms rnd s =
     (case one_row (session_info s) of
        Inl e \<Rightarrow> Inl e
      | Inr existing \<Rightarrow>
          if truthyObject existing then
            (let info = \<lparr> sessionId = session_id existing, createdAt = created_at existing,
                          lastActivityAt = last_activity_at existing,
                          messageCount = message_count existing,
                          isActive = (is_active existing = 1) \<rparr>
             in Inr (info, s\<lparr> sessionCache := Some info \<rparr>))
          else
            (let sid = generateId ms rnd;
                 info = \<lparr> sessionId = sid, createdAt = now, lastActivityAt = now,
                          messageCount = 0, isActive = True \<rparr>
             in Inr (info,
                     s\<lparr> session_info := Some \<lparr> session_id = sid, created_at = now,
                                                last_activity_at = now, message_count = 0,
                                                is_active = 1 \<rparr>,
                        sessionCache := Some info \<rparr>)))"

text \<open>
  The constructor: the tables are those of the storage, the cache starts as \<open>null\<close>,
  and \<open>initializeDatabase()\<close> ends with \<open>ensureSession()\<close>, whose error leaves the
  constructor.
\<close>

definition new_DevCopilotAgent ::
  "string \<Rightarrow> nat \<Rightarrow> string \<Rightarrow> DevCopilotAgent \<Rightarrow> js_error + DevCopilotAgent" where
  "new_DevCopilotAgent now ms rnd storage =
     (case ensureSession now ms rnd (storage\<lparr> sessionCache := None \<rparr>) of
        Inl e \<Rightarrow> Inl e
      | Inr (info, s) \<Rightarrow> Inr s)"

definition updateSessionActivity :: "string \<Rightarrow> DevCopilotAgent \<Rightarrow> DevCopilotAgent" where
  "updateSessionActivity now s =
     s\<lparr> session_info := map_option (\<lambda>r. r\<lparr> last_activity_at := now \<rparr>) (session_info s),
        sessionCache := map_option (\<lambda>c. c\<lparr> lastActivityAt := now \<rparr>) (sessionCache s) \<rparr>"

definition incrementMessageCount :: "DevCopilotAgent \<Rightarrow> DevCopilotAgent" where
  "incrementMessageCount s =
     s\<lparr> session_info :=
          map_option (\<lambda>r. r\<lparr> message_count := message_count r + 1 \<rparr>) (session_info s),
        sessionCache :=
          map_option (\<lambda>c. c\<lparr> messageCount := messageCount c + 1 \<rparr>) (sessionCache s) \<rparr>"

definition getSessionInfo ::
  "string \<Rightarrow> nat \<Rightarrow> string \<Rightarrow> DevCopilotAgent \<Rightarrow> js_error + (SessionInfo \<times> DevCopilotAgent)" where
  "getSessionInfo now ms rnd s = ensureSession now ms rnd s"

subsection \<open>Messages\<close>

text \<open>
  \<open>addMessage\<close>. \<open>ms\<close> and \<open>rnd\<close> are read by \<open>generateId()\<close>, \<open>ts\<close> is the message's
  timestamp and \<open>act\<close> the later reading of the clock in \<open>updateSessionActivity\<close>. The
  INSERT fails on a duplicate primary key; the failure is caught and thrown again.
\<close>

definition addMessage ::
  "Role \<Rightarrow> string \<Rightarrow> MessageMetadata option \<Rightarrow> nat \<Rightarrow> string \<Rightarrow> string \<Rightarrow> string \<Rightarrow>
   DevCopilotAgent \<Rightarrow> js_error + (ConversationMessage \<times> DevCopilotAgent)" where
  "addMessage r c md ms rnd ts act s =
     (let i = generateId ms rnd;
          metadataJson = (case md of None \<Rightarrow> Null | Some m \<Rightarrow> Json m)
      in if i \<in> set (map row_id (messages s))
         then Inl (Error ''Failed to add message'')
         else
           (let s1 = s\<lparr> messages := messages s @
                         [\<lparr> row_id = i, row_role = r, row_content = c, row_timestamp = ts,
                            row_metadata = metadataJson \<rparr>] \<rparr>;
                s2 = incrementMessageCount s1;
                s3 = updateSessionActivity act s2
            in Inr (\<lparr> msg_id = i, msg_role = r, msg_content = c, msg_timestamp = ts,
                      msg_metadata = md \<rparr>, s3)))"

text \<open>
  The WHERE clause built by \<open>getConversationHistory\<close>: a filter is added for each option
  that is truthy (an empty string is not).
\<close>

definition matches :: "GetHistoryOptions option \<Rightarrow> message_row \<Rightarrow> bool" where
  "matches options r =
     (case options of
        None \<Rightarrow> True
      | Some opts \<Rightarrow>
          (case opt_role opts of None \<Rightarrow> True | Some q \<Rightarrow> row_role r = q) \<and>
          (case opt_after opts of
             None \<Rightarrow> True
           | Some a \<Rightarrow> if a = [] then True else row_timestamp r > a) \<and>
          (case opt_before opts of
             None \<Rightarrow> True
           | Some b \<Rightarrow> if b = [] then True else row_timestamp r < b))"

text \<open>
  \<open>ORDER BY timestamp DESC\<close>: the rows by descending timestamp, compared as text. Rows
  with equal timestamps stay in storage order, as the engine returns them: a stable
  sort by descending key.
\<close>

definition orderByTimestampDesc :: "message_row list \<Rightarrow> message_row list" where
  "orderByTimestampDesc rows = rev (sort_key row_timestamp (rev rows))"

text \<open>
  \<open>LIMIT ?\<close> is added when \<open>options.limit\<close> is truthy and positive. The limit is an
  integer that the engine takes as a LIMIT.
\<close>

definition applyLimit :: "GetHistoryOptions option \<Rightarrow> message_row list \<Rightarrow> message_row list" where
  "applyLimit options rows =
     (case options of
        None \<Rightarrow> rows
      | Some opts \<Rightarrow>
          (case opt_limit opts of
             None \<Rightarrow> rows
           | Some n \<Rightarrow> if n \<noteq> 0 \<and> n > 0 then take (nat n) rows else rows))"

definition runQuery :: "GetHistoryOptions option \<Rightarrow> DevCopilotAgent \<Rightarrow> message_row list" where
  "runQuery options s =
     applyLimit options (orderByTimestampDesc (filter (matches options) (messages s)))"

text \<open>One row as a \<open>ConversationMessage\<close>; \<open>JSON.parse\<close> of the metadata may throw.\<close>

definition rowToMessage :: "message_row \<Rightarrow> js_error + ConversationMessage" where
  "rowToMessage r =
     (case row_metadata r of
        Malformed \<Rightarrow> Inl SyntaxError
      | Json m \<Rightarrow> Inr \<lparr> msg_id = row_id r, msg_role = row_role r, msg_content = row_content r,
                       msg_timestamp = row_timestamp r, msg_metadata = Some m \<rparr>
      | _ \<Rightarrow> Inr \<lparr> msg_id = row_id r, msg_role = row_role r, msg_content = row_content r,
                  msg_timestamp = row_timestamp r, msg_metadata = None \<rparr>)"

text \<open>\<open>rows.map(...)\<close> with a callback that may throw: the first error ends the loop.\<close>

fun mapRows :: "message_row list \<Rightarrow> js_error + ConversationMessage list" where
  "mapRows [] = Inr []"
| "mapRows (r # rs) =
     (case rowToMessage r of
        Inl e \<Rightarrow> Inl e
      | Inr m \<Rightarrow> (case mapRows rs of Inl e \<Rightarrow> Inl e | Inr ms \<Rightarrow> Inr (m # ms)))"

text \<open>
  \<open>getConversationHistory(options)\<close>; \<open>act\<close> is the clock reading of
  \<open>updateSessionActivity\<close>, reached only when no row failed to parse.
\<close>

definition getConversationHistory ::
  "GetHistoryOptions option \<Rightarrow> string \<Rightarrow> DevCopilotAgent \<Rightarrow>
   js_error + (ConversationMessage list \<times> DevCopilotAgent)" where
  "getConversationHistory options act s =
     (case mapRows (rev (runQuery options s)) of
        Inl e \<Rightarrow> Inl (Error ''Failed to get conversation history'')
      | Inr ms \<Rightarrow> Inr (ms, updateSessionActivity act s))"

definition getMessageCount :: "DevCopilotAgent \<Rightarrow> int" where
  "getMessageCount s = int (length (messages s))"

text \<open>\<open>deleteMessage(messageId)\<close>: one DELETE on table \<open>messages\<close>, and \<open>true\<close>.\<close>

definition deleteMessage :: "string \<Rightarrow> DevCopilotAgent \<Rightarrow> bool \<times> DevCopilotAgent" where
  "deleteMessage messageId s =
     (True, s\<lparr> messages := filter (\<lambda>r. row_id r \<noteq> messageId) (messages s) \<rparr>)"

subsection \<open>Project context\<close>

text \<open>Reading one JSON column: \<open>row.col ? JSON.parse(row.col) : undefined\<close>.\<close>

definition parseColumn :: "'a column \<Rightarrow> js_error + 'a option" where
  "parseColumn c =
     (case c of
        Null \<Rightarrow> Inr None
      | Empty \<Rightarrow> Inr None
      | Json v \<Rightarrow> Inr (Some v)
      | Malformed \<Rightarrow> Inl SyntaxError)"

text \<open>The body of the \<open>try\<close> block of \<open>getProjectContext\<close>.\<close>

definition readContext :: "DevCopilotAgent \<Rightarrow> js_error + ProjectContext" where
  "readContext s =
     (case one_row (project_context s) of
        Inl e \<Rightarrow> Inl e
      | Inr row \<Rightarrow>
          if \<not> truthyObject row then Inr emptyContext
          else
            (case parseColumn (error_logs row) of
               Inl e \<Rightarrow> Inl e
             | Inr logs \<Rightarrow>
                 (case parseColumn (resolved_issues row) of
                    Inl e \<Rightarrow> Inl e
                  | Inr issues \<Rightarrow>
                      (case parseColumn (cloudflare_services row) of
                         Inl e \<Rightarrow> Inl e
                       | Inr services \<Rightarrow>
                           Inr \<lparr> workerCode = worker_code row, errorLogs = logs,
                                 resolvedIssues = issues, cloudflareServices = services,
                                 projectName = project_name row,
                                 lastUpdated = last_updated row \<rparr>))))"

text \<open>\<open>getProjectContext()\<close>: the \<open>catch\<close> block returns the empty object.\<close>

definition getProjectContext :: "DevCopilotAgent \<Rightarrow> js_error + ProjectContext" where
  "getProjectContext s =
     (case readContext s of Inl e \<Rightarrow> Inr emptyContext | Inr c \<Rightarrow> Inr c)"

text \<open>One field of \<open>{...existing, ...context}\<close>.\<close>

definition spread :: "'a option \<Rightarrow> 'a field \<Rightarrow> 'a option" where
  "spread e f = (case f of Absent \<Rightarrow> e | Undefined \<Rightarrow> None | Value v \<Rightarrow> Some v)"

text \<open>
  \<open>[...new Set(xs)]\<close>: the elements of \<open>xs\<close> in the order of their first occurrence. The
  accumulator is the set built so far, in insertion order.
\<close>

fun addAll :: "'a list \<Rightarrow> 'a list \<Rightarrow> 'a list" where
  "addAll acc [] = acc"
| "addAll acc (x # xs) = addAll (if x \<in> set acc then acc else acc @ [x]) xs"

definition new_Set :: "'a list \<Rightarrow> 'a list" where
  "new_Set xs = addAll [] xs"

text \<open>
  The two list fields: \<open>if (context.f && existing.f) merged.f = [...existing.f, ...context.f]\<close>
  after the spread. An array is truthy, also the empty one.
\<close>

definition mergeList :: "'a list option \<Rightarrow> 'a list field \<Rightarrow> 'a list option" where
  "mergeList e f =
     (case f of
        Value xs \<Rightarrow> (case e of Some ys \<Rightarrow> Some (ys @ xs) | None \<Rightarrow> spread e f)
      | _ \<Rightarrow> spread e f)"

definition mergeServices :: "'a list option \<Rightarrow> 'a list field \<Rightarrow> 'a list option" where
  "mergeServices e f =
     (case f of
        Value xs \<Rightarrow> (case e of Some ys \<Rightarrow> Some (new_Set (ys @ xs)) | None \<Rightarrow> spread e f)
      | _ \<Rightarrow> spread e f)"

text \<open>
  The merge of \<open>updateProjectContext\<close> (from \<open>const merged\<close> to the upsert); \<open>now\<close> is
  the clock reading stored in \<open>lastUpdated\<close>.
\<close>

definition mergeContext :: "string \<Rightarrow> ProjectContext \<Rightarrow> PartialContext \<Rightarrow> ProjectContext" where
  "mergeContext now existing context =
     \<lparr> workerCode = spread (workerCode existing) (p_workerCode context),
       errorLogs = mergeList (errorLogs existing) (p_errorLogs context),
       resolvedIssues = mergeList (resolvedIssues existing) (p_resolvedIssues context),
       cloudflareServices =
         mergeServices (cloudflareServices existing) (p_cloudflareServices context),
       projectName = spread (projectName existing) (p_projectName context),
       lastUpdated = Some now \<rparr>"

text \<open>\<open>v ? JSON.stringify(v) : null\<close> on an optional array.\<close>

definition stringifyColumn :: "'a option \<Rightarrow> 'a column" where
  "stringifyColumn v = (case v of None \<Rightarrow> Null | Some x \<Rightarrow> Json x)"

definition upsertContext :: "ProjectContext \<Rightarrow> DevCopilotAgent \<Rightarrow> DevCopilotAgent" where
  "upsertContext merged s =
     s\<lparr> project_context :=
          Some \<lparr> worker_code = workerCode merged,
                 error_logs = stringifyColumn (errorLogs merged),
                 resolved_issues = stringifyColumn (resolvedIssues merged),
                 cloudflare_services = stringifyColumn (cloudflareServices merged),
                 project_name = projectName merged,
                 last_updated = lastUpdated merged \<rparr> \<rparr>"

text \<open>
  \<open>updateProjectContext(context)\<close>; \<open>now\<close> is the clock reading of the merge and \<open>act\<close>
  the one of \<open>updateSessionActivity\<close>.
\<close>

definition updateProjectContext ::
  "PartialContext \<Rightarrow> string \<Rightarrow> string \<Rightarrow> DevCopilotAgent \<Rightarrow>
   StateOperationResult \<times> DevCopilotAgent" where
  "updateProjectContext context now act s =
     (case getProjectContext s of
        Inl e \<Rightarrow>
          (\<lparr> success = False, error = Some ''Failed to update project context'',
              data = None \<rparr>, s)
      | Inr existing \<Rightarrow>
          (let merged = mergeContext now existing context
           in (\<lparr> success = True, error = None, data = Some merged \<rparr>,
               updateSessionActivity act (upsertContext merged s))))"

definition addResolvedIssue ::
  "string \<Rightarrow> string \<Rightarrow> string list option \<Rightarrow> string list option \<Rightarrow> string \<Rightarrow> string \<Rightarrow> string \<Rightarrow>
   DevCopilotAgent \<Rightarrow> StateOperationResult \<times> DevCopilotAgent" where
  "addResolvedIssue i sol codes files ts now act s =
     updateProjectContext
       (noUpdate\<lparr> p_resolvedIssues :=
           Value [\<lparr> issue_timestamp = ts, issue = i, solution = sol, errorCodes = codes,
                    affectedFiles = files \<rparr>] \<rparr>) now act s"

definition addErrorLogs ::
  "string list \<Rightarrow> string \<Rightarrow> string \<Rightarrow> DevCopilotAgent \<Rightarrow>
   StateOperationResult \<times> DevCopilotAgent" where
  "addErrorLogs logs now act s =
     updateProjectContext (noUpdate\<lparr> p_errorLogs := Value logs \<rparr>) now act s"

text \<open>
  \<open>setWorkerCode(code, projectName?)\<close> passes \<open>{ workerCode: code, projectName }\<close>: the key
  \<open>projectName\<close> is always there, with the value \<open>undefined\<close> when the argument is left out.
\<close>

definition setWorkerCode ::
  "string \<Rightarrow> string option \<Rightarrow> string \<Rightarrow> string \<Rightarrow> DevCopilotAgent \<Rightarrow>
   StateOperationResult \<times> DevCopilotAgent" where
  "setWorkerCode code pn now act s =
     updateProjectContext
       (noUpdate\<lparr> p_workerCode := Value code,
                  p_projectName := (case pn of None \<Rightarrow> Undefined | Some n \<Rightarrow> Value n) \<rparr>)
       now act s"

subsection \<open>Session management\<close>

text \<open>
  \<open>clearSession()\<close>: the three DELETEs, the cache set to \<open>null\<close>, then \<open>ensureSession()\<close>
  with its readings \<open>now\<close>, \<open>ms\<close> and \<open>rnd\<close>, all inside \<open>try\<close>; the \<open>catch\<close> block
  returns the failure and undoes nothing.
\<close>

definition clearSession ::
  "string \<Rightarrow> nat \<Rightarrow> string \<Rightarrow> DevCopilotAgent \<Rightarrow> StateOperationResult \<times> DevCopilotAgent" where
  "clearSession now ms rnd s =
     (let s1 = s\<lparr> messages := [] \<rparr>;
          s2 = s1\<lparr> project_context := None \<rparr>;
          s3 = s2\<lparr> session_info := None \<rparr>;
          s4 = s3\<lparr> sessionCache := None \<rparr>
      in case ensureSession now ms rnd s4 of
           Inl e \<Rightarrow>
             (\<lparr> success = False,
                 error = Some (''Failed to clear session: '' @ message e), data = None \<rparr>, s4)
         | Inr (info, s5) \<Rightarrow> (\<lparr> success = True, error = None, data = None \<rparr>, s5))"

definition deactivateSession :: "DevCopilotAgent \<Rightarrow> DevCopilotAgent" where
  "deactivateSession s =
     s\<lparr> session_info := map_option (\<lambda>r. r\<lparr> is_active := 0 \<rparr>) (session_info s),
        sessionCache := map_option (\<lambda>c. c\<lparr> isActive := False \<rparr>) (sessionCache s) \<rparr>"

section \<open>Sample states\<close>

text \<open>A storage whose \<open>session_info\<close> table holds its row, and the object built on it.\<close>

definition seededStorage :: DevCopilotAgent where
  "seededStorage =
     emptyStorage\<lparr> session_info :=
       Some \<lparr> session_id = ''1714554000000-k3j9x2a1b'',
              created_at = ''2024-05-01T09:00:00.000Z'',
              last_activity_at = ''2024-05-01T09:00:00.000Z'',
              message_count = 0, is_active = 1 \<rparr> \<rparr>"

definition agent0 :: DevCopilotAgent where
  "agent0 =
     seededStorage\<lparr> sessionCache :=
       Some \<lparr> sessionId = ''1714554000000-k3j9x2a1b'',
              createdAt = ''2024-05-01T09:00:00.000Z'',
              lastActivityAt = ''2024-05-01T09:00:00.000Z'',
              messageCount = 0, isActive = True \<rparr> \<rparr>"

text \<open>One call of \<open>addMessage\<close> on that object.\<close>

definition helloAdded :: "js_error + (ConversationMessage \<times> DevCopilotAgent)" where
  "helloAdded =
     addMessage User ''hello'' None 1714554001000 ''q7w8e9r0t''
       ''2024-05-01T09:00:01.000Z'' ''2024-05-01T09:00:01.001Z'' agent0"

text \<open>Three messages stored in an order that is not the order of their timestamps.\<close>

definition sampleRows :: "message_row list" where
  "sampleRows =
     [\<lparr> row_id = ''m3'', row_role = User, row_content = ''third'',
        row_timestamp = ''2024-05-03T10:00:00.000Z'', row_metadata = Null \<rparr>,
      \<lparr> row_id = ''m1'', row_role = User, row_content = ''first'',
        row_timestamp = ''2024-05-01T10:00:00.000Z'', row_metadata = Null \<rparr>,
      \<lparr> row_id = ''m2'', row_role = Assistant, row_content = ''second'',
        row_timestamp = ''2024-05-02T10:00:00.000Z'', row_metadata = Null \<rparr>]"

definition sampleAgent :: DevCopilotAgent where
  "sampleAgent = agent0\<lparr> messages := sampleRows \<rparr>"

definition limitOnly :: "int \<Rightarrow> GetHistoryOptions" where
  "limitOnly n = \<lparr> opt_limit = Some n, opt_role = None, opt_after = None, opt_before = None \<rparr>"

text \<open>A \<open>project_context\<close> row whose \<open>error_logs\<close> text is not JSON.\<close>

definition brokenAgent :: DevCopilotAgent where
  "brokenAgent =
     agent0\<lparr> project_context :=
       Some \<lparr> worker_code = Some ''export default {}'', error_logs = Malformed,
              resolved_issues = Null, cloudflare_services = Json [KV],
              project_name = None, last_updated = Some ''2024-05-01T09:30:00.000Z'' \<rparr> \<rparr>"

section \<open>Verification of the rate limiter\<close>

subsection \<open>Lemmas on one call of \<open>check\<close>\<close>

lemma check_config: "config (snd (check now key L)) = config L"
  by (simp add: check_def Let_def split: option.splits)

lemma check_starts_window:
  assumes "starts_window now key L"
  shows "allowed (fst (check now key L))"
    and "store (snd (check now key L)) key =
           Some \<lparr> entry_count = 1, entry_resetAt = now + windowMs (config L) \<rparr>"
  using assms by (auto simp: check_def starts_window_def Let_def split: option.splits)

lemma check_within_window:
  assumes "store L key = Some e" "\<not> now > entry_resetAt e" "entry_count e < maxRequests (config L)"
  shows "allowed (fst (check now key L))"
    and "store (snd (check now key L)) key = Some (e\<lparr> entry_count := entry_count e + 1 \<rparr>)"
  using assms by (auto simp: check_def Let_def)

lemma check_limited:
  assumes "store L key = Some e" "\<not> now > entry_resetAt e" "\<not> entry_count e < maxRequests (config L)"
  shows "\<not> allowed (fst (check now key L))"
    and "snd (check now key L) = L"
  using assms by (auto simp: check_def Let_def)

text \<open>
  Claim C4. With \<open>maxRequests = 3\<close> and \<open>windowMs = 1000\<close>, four calls of \<open>check\<close> with
  one key, the first of which opens the window at time \<open>t1\<close> and the others at times not
  after \<open>t1 + 1000\<close>, are allowed, allowed, allowed and refused. And for every
  configuration, a call at a time strictly after the entry's \<open>resetAt\<close> is allowed and
  stores a fresh entry with count 1.
\<close>

theorem rate_limiter_window:
  fixes L :: RateLimiter
  assumes cfg: "maxRequests (config L) = 3" "windowMs (config L) = 1000"
    and first: "starts_window t1 key L"
    and within: "t2 \<le> t1 + 1000" "t3 \<le> t1 + 1000" "t4 \<le> t1 + 1000"
  shows "(let (r1, L1) = check t1 key L;
              (r2, L2) = check t2 key L1;
              (r3, L3) = check t3 key L2;
              (r4, L4) = check t4 key L3
          in map allowed [r1, r2, r3, r4] = [True, True, True, False]) \<and>
         (\<forall>(M :: RateLimiter) e now.
            store M key = Some e \<and> now > entry_resetAt e \<longrightarrow>
            allowed (fst (check now key M)) \<and>
            store (snd (check now key M)) key =
              Some \<lparr> entry_count = 1, entry_resetAt = now + windowMs (config M) \<rparr>)"
proof (intro conjI allI impI)
  define L1 where "L1 = snd (check t1 key L)"
  define L2 where "L2 = snd (check t2 key L1)"
  define L3 where "L3 = snd (check t3 key L2)"
  have c1: "config L1 = config L" and c2: "config L2 = config L" and c3: "config L3 = config L"
    by (simp_all add: L1_def L2_def L3_def check_config)
  have a1: "allowed (fst (check t1 key L))"
    and s1: "store L1 key = Some \<lparr> entry_count = 1, entry_resetAt = t1 + 1000 \<rparr>"
    using check_starts_window [OF first] cfg by (simp_all add: L1_def)
  have a2: "allowed (fst (check t2 key L1))"
    and s2: "store L2 key = Some \<lparr> entry_count = 2, entry_resetAt = t1 + 1000 \<rparr>"
    using check_within_window [OF s1, of t2] within cfg c1 by (simp_all add: L2_def)
  have a3: "allowed (fst (check t3 key L2))"
    and s3: "store L3 key = Some \<lparr> entry_count = 3, entry_resetAt = t1 + 1000 \<rparr>"
    using check_within_window [OF s2, of t3] within cfg c2 by (simp_all add: L3_def)
  have a4: "\<not> allowed (fst (check t4 key L3))"
    using check_limited(1) [OF s3, of t4] within cfg c3 by simp
  show "(let (r1, L1) = check t1 key L;
              (r2, L2) = check t2 key L1;
              (r3, L3) = check t3 key L2;
              (r4, L4) = check t4 key L3
          in map allowed [r1, r2, r3, r4] = [True, True, True, False])"
    using a1 a2 a3 a4 by (simp add: L1_def L2_def L3_def case_prod_unfold)
next
  fix M :: RateLimiter and e now
  assume "store M key = Some e \<and> now > entry_resetAt e"
  then have "starts_window now key M"
    by (simp add: starts_window_def)
  from check_starts_window [OF this]
  show "allowed (fst (check now key M))"
    and "store (snd (check now key M)) key =
          Some \<lparr> entry_count = 1, entry_resetAt = now + windowMs (config M) \<rparr>"
    by simp_all
qed

theorem rate_limiter_window_witness:
  "maxRequests (config (new_RateLimiter (Some 3) (Some 1000))) = 3 \<and>
   windowMs (config (new_RateLimiter (Some 3) (Some 1000))) = 1000 \<and>
   starts_window 0 ''10.0.0.1'' (new_RateLimiter (Some 3) (Some 1000)) \<and>
   (let (r1, L1) = check 0 ''10.0.0.1'' (new_RateLimiter (Some 3) (Some 1000));
        (r2, L2) = check 10 ''10.0.0.1'' L1;
        (r3, L3) = check 500 ''10.0.0.1'' L2;
        (r4, L4) = check 1000 ''10.0.0.1'' L3
    in map allowed [r1, r2, r3, r4] = [True, True, True, False] \<and>
       store L4 ''10.0.0.1'' = Some \<lparr> entry_count = 3, entry_resetAt = 1000 \<rparr> \<and>
       allowed (fst (check 1001 ''10.0.0.1'' L4)) \<and>
       store (snd (check 1001 ''10.0.0.1'' L4)) ''10.0.0.1'' =
         Some \<lparr> entry_count = 1, entry_resetAt = 2001 \<rparr>)"
proof -
  let ?L = "new_RateLimiter (Some 3) (Some 1000)"
  have h1: "maxRequests (config ?L) = 3" and h2: "windowMs (config ?L) = 1000"
    by (simp_all add: new_RateLimiter_def)
  have h3: "starts_window 0 ''10.0.0.1'' ?L"
    by (simp add: starts_window_def new_RateLimiter_def)
  have h4: "(10::int) \<le> 0 + 1000" "(500::int) \<le> 0 + 1000" "(1000::int) \<le> 0 + 1000"
    by simp_all
  note inst = rate_limiter_window [OF h1 h2 h3 h4]
  show ?thesis
    using inst h1 h2 h3
    by (simp add: check_def new_RateLimiter_def Let_def)
qed

section \<open>Verification of the conversation history\<close>

lemmas session_defs = agent0_def seededStorage_def new_DevCopilotAgent_def ensureSession_def
  emptyStorage_def one_row_def truthyObject_def message_def generateId_def decimal.simps
  digitChar_def getSessionInfo_def clearSession_def Let_def

lemmas query_defs = getConversationHistory_def runQuery_def applyLimit_def orderByTimestampDesc_def
  sampleAgent_def sampleRows_def limitOnly_def matches_def rowToMessage_def

lemma mapRows_timestamps:
  "mapRows rs = Inr ms \<Longrightarrow> map msg_timestamp ms = map row_timestamp rs"
proof (induction rs arbitrary: ms)
  case Nil
  then show ?case by simp
next
  case (Cons r rs)
  then show ?case
    by (auto simp: rowToMessage_def split: sum.splits column.splits)
qed

lemma mapRows_length: "mapRows rs = Inr ms \<Longrightarrow> length ms = length rs"
  using mapRows_timestamps [of rs ms] by (metis length_map)

lemma mapRows_readable:
  "\<forall>r \<in> set rs. row_metadata r \<noteq> Malformed \<Longrightarrow> \<exists>ms. mapRows rs = Inr ms"
proof (induction rs)
  case Nil
  then show ?case by simp
next
  case (Cons r rs)
  then obtain ms where "mapRows rs = Inr ms" by auto
  moreover have "\<exists>m. rowToMessage r = Inr m"
    using Cons.prems by (cases "row_metadata r") (auto simp: rowToMessage_def)
  ultimately show ?case by auto
qed

text \<open>Every row that \<open>addMessage\<close> writes has metadata that parses.\<close>

lemma addMessage_readable:
  assumes "\<forall>r \<in> set (messages s). row_metadata r \<noteq> Malformed"
    and "addMessage r c md ms rnd ts act s = Inr (m, s')"
  shows "\<forall>r \<in> set (messages s'). row_metadata r \<noteq> Malformed"
  using assms
  by (auto simp: addMessage_def Let_def incrementMessageCount_def updateSessionActivity_def
      split: if_splits option.splits)

lemma set_applyLimit: "set (applyLimit options rows) \<subseteq> set rows"
  by (auto simp: applyLimit_def split: option.splits dest: in_set_takeD)

lemma set_runQuery: "set (runQuery options s) \<subseteq> set (messages s)"
  using set_applyLimit [of options "orderByTimestampDesc (filter (matches options) (messages s))"]
  by (auto simp: runQuery_def orderByTimestampDesc_def)

lemma sorted_rev_applyLimit:
  assumes "sorted (map row_timestamp xs)"
  shows "sorted (map row_timestamp (rev (applyLimit options (rev xs))))"
proof -
  have "sorted (map row_timestamp (rev (take k (rev xs))))" for k
    using assms by (simp add: rev_take drop_map [symmetric] sorted_wrt_drop del: drop_map)
  then show ?thesis
    using assms by (simp add: applyLimit_def split: option.splits)
qed

lemma sorted_rev_runQuery: "sorted (map row_timestamp (rev (runQuery options s)))"
  unfolding runQuery_def orderByTimestampDesc_def
  by (rule sorted_rev_applyLimit) simp

lemma getConversationHistory_Inr:
  "getConversationHistory options act s = Inr (ms, s') \<longleftrightarrow>
     mapRows (rev (runQuery options s)) = Inr ms \<and> s' = updateSessionActivity act s"
  by (auto simp: getConversationHistory_def split: sum.splits)

lemma getConversationHistory_returns:
  assumes "\<forall>r \<in> set (messages s). row_metadata r \<noteq> Malformed"
  shows "\<exists>ms s'. getConversationHistory options act s = Inr (ms, s')"
proof -
  have "\<forall>r \<in> set (rev (runQuery options s)). row_metadata r \<noteq> Malformed"
    using assms set_runQuery [of options s] by auto
  from mapRows_readable [OF this]
  obtain ms where "mapRows (rev (runQuery options s)) = Inr ms" ..
  then show ?thesis
    by (simp add: getConversationHistory_Inr)
qed

text \<open>
  Claim C3. For every stored table of messages, in any storage order, and every
  combination of the options \<open>role\<close>, \<open>after\<close>, \<open>before\<close> and \<open>limit\<close>, the sequence
  that \<open>getConversationHistory\<close> returns is in non-decreasing order of timestamp; and
  it does return one whenever the metadata of every stored row parses (which holds for
  every row written by \<open>addMessage\<close>).
\<close>

theorem getConversationHistory_sorted:
  "(getConversationHistory options act s = Inr (ms, s') \<longrightarrow> sorted (map msg_timestamp ms)) \<and>
   ((\<forall>r \<in> set (messages s). row_metadata r \<noteq> Malformed) \<longrightarrow>
      (\<exists>ms' s''. getConversationHistory options act s = Inr (ms', s'')))"
proof (intro conjI impI)
  assume "getConversationHistory options act s = Inr (ms, s')"
  then have "mapRows (rev (runQuery options s)) = Inr ms"
    by (simp add: getConversationHistory_Inr)
  from mapRows_timestamps [OF this] show "sorted (map msg_timestamp ms)"
    by (simp only: sorted_rev_runQuery)
next
  assume "\<forall>r \<in> set (messages s). row_metadata r \<noteq> Malformed"
  then show "\<exists>ms' s''. getConversationHistory options act s = Inr (ms', s'')"
    by (rule getConversationHistory_returns)
qed

theorem getConversationHistory_sorted_witness:
  "list_all (\<lambda>r. row_metadata r \<noteq> Malformed) (messages sampleAgent) \<and>
   (\<exists>ms s'. getConversationHistory None ''2024-05-04T00:00:00.000Z'' sampleAgent = Inr (ms, s') \<and>
            map msg_id ms = [''m1'', ''m2'', ''m3''] \<and>
            sorted (map msg_timestamp ms))"
proof -
  let ?act = "''2024-05-04T00:00:00.000Z''"
  have h: "\<forall>r \<in> set (messages sampleAgent). row_metadata r \<noteq> Malformed"
    by (simp add: sampleAgent_def sampleRows_def)
  with getConversationHistory_sorted [of None ?act sampleAgent]
  obtain ms s' where r: "getConversationHistory None ?act sampleAgent = Inr (ms, s')"
    by blast
  with getConversationHistory_sorted [of None ?act sampleAgent ms s']
  have "sorted (map msg_timestamp ms)"
    by blast
  moreover have "map msg_id ms = [''m1'', ''m2'', ''m3'']"
    using r by (auto simp add: query_defs)
  ultimately show ?thesis
    using h r by (simp add: list_all_iff)
qed

lemma rev_runQuery_limit:
  assumes "opt_limit opts = Some n" "0 < n"
  shows "rev (runQuery (Some opts) s) =
         (let xs = sort_key row_timestamp (rev (filter (matches (Some opts)) (messages s)))
          in drop (length xs - nat n) xs)"
  using assms by (simp add: runQuery_def applyLimit_def orderByTimestampDesc_def rev_take Let_def)

lemma sorted_split:
  assumes "sorted (map f xs)"
  shows "\<forall>a \<in> set (take k xs). \<forall>b \<in> set (drop k xs). f a \<le> f b"
proof -
  have "sorted (map f (take k xs) @ map f (drop k xs))"
    using assms by (simp add: map_append [symmetric] del: map_append)
  then show ?thesis
    by (auto simp: sorted_append)
qed

text \<open>With no option but the limit, the WHERE clause keeps every stored row.\<close>

lemma matches_limitOnly: "filter (matches (Some (limitOnly n))) rows = rows"
  by (simp add: matches_def limitOnly_def)

text \<open>
  Claim C9. When a limit \<open>n > 0\<close> is given and more than \<open>n\<close> stored messages pass the
  other filters (all stored messages, when there is no other filter), the call returns
  exactly \<open>n\<close> messages in ascending order of timestamp, and they are the most recent
  ones: the selected rows split into the returned ones and the others, and no other row
  has a timestamp greater than that of a returned row. The call returns whenever the
  metadata of every stored row parses.
\<close>

theorem getConversationHistory_limit_most_recent:
  assumes lim: "opt_limit opts = Some n" "0 < n"
    and more: "nat n < length (filter (matches (Some opts)) (messages s))"
  shows "(getConversationHistory (Some opts) act s = Inr (ms, s') \<longrightarrow>
            length ms = nat n \<and> sorted (map msg_timestamp ms) \<and>
            (\<exists>kept older.
               mset (filter (matches (Some opts)) (messages s)) = mset older + mset kept \<and>
               mapRows kept = Inr ms \<and>
               (\<forall>a \<in> set older. \<forall>b \<in> set kept. row_timestamp a \<le> row_timestamp b))) \<and>
         ((\<forall>r \<in> set (messages s). row_metadata r \<noteq> Malformed) \<longrightarrow>
            (\<exists>ms' s''. getConversationHistory (Some opts) act s = Inr (ms', s'')))"
proof (intro conjI impI)
  define xs where "xs = sort_key row_timestamp (rev (filter (matches (Some opts)) (messages s)))"
  define k where "k = length xs - nat n"
  have len: "length xs = length (filter (matches (Some opts)) (messages s))"
    by (simp add: xs_def)
  have kept: "rev (runQuery (Some opts) s) = drop k xs"
    using rev_runQuery_limit [OF lim, of s] by (simp add: xs_def k_def Let_def)
  assume "getConversationHistory (Some opts) act s = Inr (ms, s')"
  then have mr: "mapRows (drop k xs) = Inr ms"
    by (simp add: getConversationHistory_Inr kept)
  show "length ms = nat n"
    using mapRows_length [OF mr] more len by (simp add: k_def)
  show "sorted (map msg_timestamp ms)"
    using mapRows_timestamps [OF mr] sorted_rev_runQuery [of "Some opts" s] by (simp add: kept)
  have "mset (filter (matches (Some opts)) (messages s)) = mset xs"
    by (simp add: xs_def)
  also have "\<dots> = mset (take k xs) + mset (drop k xs)"
    by (metis append_take_drop_id mset_append)
  finally have split: "mset (filter (matches (Some opts)) (messages s)) =
                       mset (take k xs) + mset (drop k xs)" .
  have "sorted (map row_timestamp xs)"
    by (simp add: xs_def)
  from sorted_split [OF this, of k]
  have "\<forall>a \<in> set (take k xs). \<forall>b \<in> set (drop k xs). row_timestamp a \<le> row_timestamp b" .
  with split mr
  show "\<exists>kept older.
          mset (filter (matches (Some opts)) (messages s)) = mset older + mset kept \<and>
          mapRows kept = Inr ms \<and>
          (\<forall>a \<in> set older. \<forall>b \<in> set kept. row_timestamp a \<le> row_timestamp b)"
    by blast
next
  assume "\<forall>r \<in> set (messages s). row_metadata r \<noteq> Malformed"
  then show "\<exists>ms' s''. getConversationHistory (Some opts) act s = Inr (ms', s'')"
    by (rule getConversationHistory_returns)
qed

theorem getConversationHistory_limit_most_recent_witness:
  "opt_limit (limitOnly 2) = Some 2 \<and> (0::int) < 2 \<and>
   nat 2 < length (filter (matches (Some (limitOnly 2))) (messages sampleAgent)) \<and>
   list_all (\<lambda>r. row_metadata r \<noteq> Malformed) (messages sampleAgent) \<and>
   (\<exists>ms s'. getConversationHistory (Some (limitOnly 2)) ''2024-05-04T00:00:00.000Z'' sampleAgent =
              Inr (ms, s') \<and>
            map msg_id ms = [''m2'', ''m3''] \<and> length ms = nat 2 \<and>
            sorted (map msg_timestamp ms))"
proof -
  let ?act = "''2024-05-04T00:00:00.000Z''"
  have h1: "opt_limit (limitOnly 2) = Some 2" and h2: "(0::int) < 2"
    by (simp_all add: limitOnly_def)
  have h3: "nat 2 < length (filter (matches (Some (limitOnly 2))) (messages sampleAgent))"
    by (simp add: limitOnly_def matches_def sampleAgent_def sampleRows_def)
  have h4: "\<forall>r \<in> set (messages sampleAgent). row_metadata r \<noteq> Malformed"
    by (simp add: sampleAgent_def sampleRows_def)
  note inst = getConversationHistory_limit_most_recent [OF h1 h2 h3, where act = ?act]
  from inst h4 obtain ms s'
    where r: "getConversationHistory (Some (limitOnly 2)) ?act sampleAgent = Inr (ms, s')"
    by blast
  with inst [where ms = ms and s' = s'] have "length ms = nat 2" "sorted (map msg_timestamp ms)"
    by blast+
  moreover have "map msg_id ms = [''m2'', ''m3'']"
    using r by (auto simp add: query_defs)
  ultimately show ?thesis
    using h1 h2 h3 h4 r by (simp add: list_all_iff)
qed

section \<open>Verification of \<open>deleteMessage\<close>\<close>

text \<open>The primary key of table \<open>messages\<close> is kept by every successful \<open>addMessage\<close>.\<close>

lemma addMessage_primary_key:
  assumes "distinct (map row_id (messages s))" "addMessage r c md ms rnd ts act s = Inr (m, s')"
  shows "distinct (map row_id (messages s'))"
  using assms
  by (auto simp: addMessage_def Let_def incrementMessageCount_def updateSessionActivity_def
      split: if_splits)

lemma primary_key_at_most_one:
  "distinct (map row_id rows) \<Longrightarrow> length (filter (\<lambda>r. row_id r = i) rows) \<le> 1"
proof (induction rows)
  case Nil
  then show ?case by simp
next
  case (Cons r rows)
  show ?case
  proof (cases "row_id r = i")
    case True
    with Cons.prems have "i \<notin> row_id ` set rows"
      by simp
    then have "\<forall>x \<in> set rows. row_id x \<noteq> i"
      by blast
    then have "filter (\<lambda>r. row_id r = i) rows = []"
      by (simp add: filter_empty_conv)
    with True show ?thesis by simp
  next
    case False
    with Cons show ?thesis by simp
  qed
qed

lemma helloAdded_deleted:
  "\<exists>m s1 info s2. helloAdded = Inr (m, s1) \<and>
     getSessionInfo now ms rnd (snd (deleteMessage (msg_id m) s1)) = Inr (info, s2) \<and>
     getMessageCount (snd (deleteMessage (msg_id m) s1)) = 0 \<and>
     messageCount info = 1"
  by (simp add: helloAdded_def session_defs addMessage_def incrementMessageCount_def
      updateSessionActivity_def deleteMessage_def getMessageCount_def)

text \<open>
  Claim C10. \<open>deleteMessage(messageId)\<close> leaves the \<open>session_info\<close> row, the session
  cache and the project context as they are, so \<open>getSessionInfo\<close> answers as before
  (\<open>messageCount\<close> not decremented, \<open>lastActivityAt\<close> not refreshed); the rows it removes
  are those with that id, at most one under the primary key; and after a delete the
  session's \<open>messageCount\<close> can exceed the number of stored messages, as it does after
  one \<open>addMessage\<close> on an object with no message and \<open>messageCount = 0\<close>, followed
  by the delete of that message.
\<close>

theorem deleteMessage_frame:
  "session_info (snd (deleteMessage messageId s)) = session_info s \<and>
   sessionCache (snd (deleteMessage messageId s)) = sessionCache s \<and>
   project_context (snd (deleteMessage messageId s)) = project_context s \<and>
   map_sum id fst (getSessionInfo now ms rnd (snd (deleteMessage messageId s))) =
     map_sum id fst (getSessionInfo now ms rnd s) \<and>
   mset (messages s) =
     mset (messages (snd (deleteMessage messageId s))) +
     mset (filter (\<lambda>r. row_id r = messageId) (messages s)) \<and>
   (distinct (map row_id (messages s)) \<longrightarrow>
      length (messages s) \<le> length (messages (snd (deleteMessage messageId s))) + 1) \<and>
   (\<exists>m s1 info s2. helloAdded = Inr (m, s1) \<and>
      getSessionInfo now ms rnd (snd (deleteMessage (msg_id m) s1)) = Inr (info, s2) \<and>
      getMessageCount (snd (deleteMessage (msg_id m) s1)) < messageCount info)"
proof -
  let ?s' = "snd (deleteMessage messageId s)"
  have frame: "session_info ?s' = session_info s" "sessionCache ?s' = sessionCache s"
    "project_context ?s' = project_context s"
    by (simp_all add: deleteMessage_def)
  have info: "map_sum id fst (getSessionInfo now ms rnd ?s') =
              map_sum id fst (getSessionInfo now ms rnd s)"
    by (simp add: getSessionInfo_def ensureSession_def deleteMessage_def Let_def
        split: sum.splits)
  have rows: "messages ?s' = filter (\<lambda>r. row_id r \<noteq> messageId) (messages s)"
    by (simp add: deleteMessage_def)
  have "mset xs = mset (filter (\<lambda>r. row_id r \<noteq> messageId) xs) +
                  mset (filter (\<lambda>r. row_id r = messageId) xs)" for xs :: "message_row list"
    by (induction xs) simp_all
  then have part: "mset (messages s) =
              mset (messages ?s') + mset (filter (\<lambda>r. row_id r = messageId) (messages s))"
    unfolding rows .
  have key: "length (messages s) \<le> length (messages ?s') + 1"
    if "distinct (map row_id (messages s))"
  proof -
    have "size (mset (messages s)) =
          size (mset (messages ?s') + mset (filter (\<lambda>r. row_id r = messageId) (messages s)))"
      using part by simp
    then have "length (messages s) =
          length (messages ?s') + length (filter (\<lambda>r. row_id r = messageId) (messages s))"
      by (simp only: size_mset size_union)
    with primary_key_at_most_one [OF that, of messageId] show ?thesis by simp
  qed
  obtain m s1 info s2 where run: "helloAdded = Inr (m, s1)"
    "getSessionInfo now ms rnd (snd (deleteMessage (msg_id m) s1)) = Inr (info, s2)"
    "getMessageCount (snd (deleteMessage (msg_id m) s1)) = 0"
    "messageCount info = 1"
    using helloAdded_deleted [of now ms rnd] by blast
  then have more: "\<exists>m s1 info s2. helloAdded = Inr (m, s1) \<and>
      getSessionInfo now ms rnd (snd (deleteMessage (msg_id m) s1)) = Inr (info, s2) \<and>
      getMessageCount (snd (deleteMessage (msg_id m) s1)) < messageCount info"
    by (intro exI [of _ m] exI [of _ s1] exI [of _ info] exI [of _ s2]) simp
  from frame info part key more show ?thesis by blast
qed

theorem deleteMessage_frame_witness:
  "distinct (map row_id (messages sampleAgent)) \<and>
   length (messages sampleAgent) = 3 \<and>
   map row_id (messages (snd (deleteMessage ''m1'' sampleAgent))) = [''m3'', ''m2''] \<and>
   length (messages sampleAgent) \<le> length (messages (snd (deleteMessage ''m1'' sampleAgent))) + 1 \<and>
   session_info (snd (deleteMessage ''m1'' sampleAgent)) = session_info sampleAgent \<and>
   map_sum id (messageCount \<circ> fst) (getSessionInfo [] 0 [] (snd (deleteMessage ''m1'' sampleAgent))) =
     Inr 0"
proof -
  have h: "distinct (map row_id (messages sampleAgent))"
    by (simp add: sampleAgent_def sampleRows_def)
  have info: "map_sum id fst (getSessionInfo [] 0 [] sampleAgent) =
              Inr \<lparr> sessionId = ''1714554000000-k3j9x2a1b'',
                    createdAt = ''2024-05-01T09:00:00.000Z'',
                    lastActivityAt = ''2024-05-01T09:00:00.000Z'',
                    messageCount = 0, isActive = True \<rparr>"
    by (simp add: sampleAgent_def session_defs)
  note inst = deleteMessage_frame [of "''m1''" sampleAgent "[]" 0 "[]"]
  from inst have "session_info (snd (deleteMessage ''m1'' sampleAgent)) = session_info sampleAgent"
    and same: "map_sum id fst (getSessionInfo [] 0 [] (snd (deleteMessage ''m1'' sampleAgent))) =
         map_sum id fst (getSessionInfo [] 0 [] sampleAgent)"
    by blast+
  moreover from same info
  have "map_sum id (messageCount \<circ> fst)
          (getSessionInfo [] 0 [] (snd (deleteMessage ''m1'' sampleAgent))) = Inr 0"
    by (cases "getSessionInfo [] 0 [] (snd (deleteMessage ''m1'' sampleAgent))") auto
  moreover from inst h
  have "length (messages sampleAgent) \<le> length (messages (snd (deleteMessage ''m1'' sampleAgent))) + 1"
    by blast
  moreover have "map row_id (messages (snd (deleteMessage ''m1'' sampleAgent))) = [''m3'', ''m2'']"
    by (simp add: deleteMessage_def sampleAgent_def sampleRows_def)
  moreover have "length (messages sampleAgent) = 3"
    by (simp add: sampleAgent_def sampleRows_def)
  ultimately show ?thesis
    using h by simp
qed

section \<open>Verification of the project context\<close>

lemmas context_defs = updateProjectContext_def getProjectContext_def readContext_def
  one_row_def truthyObject_def parseColumn_def stringifyColumn_def upsertContext_def updateSessionActivity_def mergeContext_def
  mergeList_def mergeServices_def spread_def noUpdate_def emptyContext_def addErrorLogs_def
  setWorkerCode_def

lemma getProjectContext_total: "\<exists>c. getProjectContext s = Inr c"
  by (simp add: getProjectContext_def split: sum.splits)

lemma readContext_Malformed:
  assumes "project_context s = Some row"
    and "error_logs row = Malformed \<or> resolved_issues row = Malformed \<or>
         cloudflare_services row = Malformed"
  shows "\<exists>e. readContext s = Inl e"
  using assms
  by (auto simp: readContext_def one_row_def truthyObject_def parseColumn_def
      split: sum.splits column.splits)

text \<open>
  Claim C8. \<open>getProjectContext\<close> never fails: in every state of the store it returns a
  \<open>ProjectContext\<close>; the empty one when there is no \<open>project_context\<close> row, and the
  empty one again when a JSON column of the row does not parse (the error is caught,
  not passed to the caller).
\<close>

theorem getProjectContext_never_fails:
  "(\<exists>c. getProjectContext s = Inr c) \<and>
   (project_context s = None \<longrightarrow> getProjectContext s = Inr emptyContext) \<and>
   (\<forall>row. project_context s = Some row \<and>
           (error_logs row = Malformed \<or> resolved_issues row = Malformed \<or>
            cloudflare_services row = Malformed) \<longrightarrow>
           getProjectContext s = Inr emptyContext)"
proof (intro conjI allI impI)
  show "\<exists>c. getProjectContext s = Inr c"
    by (rule getProjectContext_total)
next
  assume "project_context s = None"
  then show "getProjectContext s = Inr emptyContext"
    by (simp add: getProjectContext_def readContext_def one_row_def)
next
  fix row
  assume "project_context s = Some row \<and>
           (error_logs row = Malformed \<or> resolved_issues row = Malformed \<or>
            cloudflare_services row = Malformed)"
  then obtain e where "readContext s = Inl e"
    using readContext_Malformed by blast
  then show "getProjectContext s = Inr emptyContext"
    by (simp add: getProjectContext_def)
qed

theorem getProjectContext_never_fails_witness:
  "project_context emptyStorage = None \<and>
   getProjectContext emptyStorage = Inr emptyContext \<and>
   (\<exists>row. project_context brokenAgent = Some row \<and> error_logs row = Malformed) \<and>
   getProjectContext brokenAgent = Inr emptyContext"
proof -
  have h1: "project_context emptyStorage = None"
    by (simp add: emptyStorage_def)
  have h2: "project_context brokenAgent =
              Some \<lparr> worker_code = Some ''export default {}'', error_logs = Malformed,
                     resolved_issues = Null, cloudflare_services = Json [KV],
                     project_name = None, last_updated = Some ''2024-05-01T09:30:00.000Z'' \<rparr>"
    by (simp add: brokenAgent_def)
  from getProjectContext_never_fails [of emptyStorage] h1
  have "getProjectContext emptyStorage = Inr emptyContext"
    by blast
  moreover from getProjectContext_never_fails [of brokenAgent] h2
  have "getProjectContext brokenAgent = Inr emptyContext"
    by simp
  ultimately show ?thesis
    using h1 h2 by simp
qed

subsection \<open>The stored context after an update\<close>

lemma spread_idem: "spread (spread e f) f = spread e f"
  by (cases f) (simp_all add: spread_def)

lemma parse_stringify: "parseColumn (stringifyColumn v) = Inr v"
  by (cases v) (simp_all add: parseColumn_def stringifyColumn_def)

lemma getProjectContext_upsert:
  "getProjectContext (updateSessionActivity act (upsertContext merged s)) = Inr merged"
  by (simp add: getProjectContext_def readContext_def one_row_def truthyObject_def
      upsertContext_def updateSessionActivity_def parse_stringify)

lemma updateProjectContext_result:
  assumes "getProjectContext s = Inr existing"
  shows "updateProjectContext context now act s =
           (\<lparr> success = True, error = None, data = Some (mergeContext now existing context) \<rparr>,
            updateSessionActivity act (upsertContext (mergeContext now existing context) s))"
  using assms by (simp add: updateProjectContext_def Let_def)

lemma getProjectContext_update:
  assumes "getProjectContext s = Inr existing"
  shows "getProjectContext (snd (updateProjectContext context now act s)) =
           Inr (mergeContext now existing context)"
  by (simp add: updateProjectContext_result [OF assms] getProjectContext_upsert)

text \<open>
  Claim C6. The merge is idempotent on the scalar fields: \<open>workerCode\<close> and
  \<open>projectName\<close> of \<open>merge(merge(C, P), P)\<close> are those of \<open>merge(C, P)\<close>, whatever the
  two merge times; and so for the store: after \<open>updateProjectContext(P)\<close> twice the
  context read back has the scalar fields it had after the first call.
\<close>

theorem mergeContext_scalar_idempotent:
  "workerCode (mergeContext t2 (mergeContext t1 C P) P) = workerCode (mergeContext t1 C P) \<and>
   projectName (mergeContext t2 (mergeContext t1 C P) P) = projectName (mergeContext t1 C P) \<and>
   (let s1 = snd (updateProjectContext P t1 a1 s);
        s2 = snd (updateProjectContext P t2 a2 s1)
    in map_sum id workerCode (getProjectContext s2) = map_sum id workerCode (getProjectContext s1) \<and>
       map_sum id projectName (getProjectContext s2) =
         map_sum id projectName (getProjectContext s1))"
proof -
  obtain C0 where c0: "getProjectContext s = Inr C0"
    using getProjectContext_total by blast
  have pure: "workerCode (mergeContext u2 (mergeContext u1 D P) P) = workerCode (mergeContext u1 D P)"
    "projectName (mergeContext u2 (mergeContext u1 D P) P) = projectName (mergeContext u1 D P)"
    for u1 u2 D
    by (simp_all add: mergeContext_def spread_idem)
  have g1: "getProjectContext (snd (updateProjectContext P t1 a1 s)) = Inr (mergeContext t1 C0 P)"
    by (rule getProjectContext_update [OF c0])
  have g2: "getProjectContext (snd (updateProjectContext P t2 a2 (snd (updateProjectContext P t1 a1 s)))) =
              Inr (mergeContext t2 (mergeContext t1 C0 P) P)"
    by (rule getProjectContext_update [OF g1])
  show ?thesis
    by (simp add: Let_def g1 g2 pure)
qed

subsection \<open>The list fields\<close>

lemma mergeList_defined:
  "mergeList e Absent = e"
  "mergeList e (Value xs) = Some ((case e of None \<Rightarrow> [] | Some ys \<Rightarrow> ys) @ xs)"
  by (simp_all add: mergeList_def spread_def split: option.splits)

text \<open>
  A partial update whose list fields are absent or arrays loses nothing: the stored
  list is the existing one followed by the supplied one.
\<close>

lemma mergeContext_keeps_lists:
  assumes "p_errorLogs P \<noteq> Undefined" "p_resolvedIssues P \<noteq> Undefined"
  shows "errorLogs (mergeContext now C P) =
           (case p_errorLogs P of
              Value xs \<Rightarrow> Some ((case errorLogs C of None \<Rightarrow> [] | Some ys \<Rightarrow> ys) @ xs)
            | _ \<Rightarrow> errorLogs C)"
    and "resolvedIssues (mergeContext now C P) =
           (case p_resolvedIssues P of
              Value xs \<Rightarrow> Some ((case resolvedIssues C of None \<Rightarrow> [] | Some ys \<Rightarrow> ys) @ xs)
            | _ \<Rightarrow> resolvedIssues C)"
  using assms by (simp_all add: mergeContext_def mergeList_defined split: field.splits)

lemma updateProjectContext_keeps_lists:
  assumes "getProjectContext s = Inr C"
    and "p_errorLogs P \<noteq> Undefined" "p_resolvedIssues P \<noteq> Undefined"
  shows "\<exists>C'. getProjectContext (snd (updateProjectContext P now act s)) = Inr C' \<and>
           errorLogs C' =
             (case p_errorLogs P of
                Value xs \<Rightarrow> Some ((case errorLogs C of None \<Rightarrow> [] | Some ys \<Rightarrow> ys) @ xs)
              | _ \<Rightarrow> errorLogs C) \<and>
           resolvedIssues C' =
             (case p_resolvedIssues P of
                Value xs \<Rightarrow> Some ((case resolvedIssues C of None \<Rightarrow> [] | Some ys \<Rightarrow> ys) @ xs)
              | _ \<Rightarrow> resolvedIssues C)"
  using getProjectContext_update [OF assms(1), of P now act]
    mergeContext_keeps_lists [OF assms(2,3), of now C]
  by simp

text \<open>
  A key with the value \<open>undefined\<close> does reach the merge from the repository's own
  code: \<open>setWorkerCode(code)\<close> without a project name erases the stored name.
\<close>

lemma setWorkerCode_without_name:
  "(let s1 = snd (setWorkerCode ''export default {}'' (Some ''edge-api'')
                    ''2024-05-01T09:10:00.000Z'' ''2024-05-01T09:10:00.001Z'' agent0);
        s2 = snd (setWorkerCode ''export default { fetch() {} }'' None
                    ''2024-05-01T09:20:00.000Z'' ''2024-05-01T09:20:00.001Z'' s1)
    in map_option project_name (project_context s1) = Some (Some ''edge-api'') \<and>
       map_option project_name (project_context s2) = Some None)"
  by (simp add: session_defs context_defs)

text \<open>In every state, a key \<open>errorLogs\<close> with the value \<open>undefined\<close> empties the column.\<close>

lemma updateProjectContext_undefined_any_state:
  "map_option error_logs
     (project_context (snd (updateProjectContext (noUpdate\<lparr> p_errorLogs := Undefined \<rparr>) now act s))) =
   Some Null"
proof -
  obtain C where "getProjectContext s = Inr C"
    using getProjectContext_total by blast
  then show ?thesis
    by (simp add: updateProjectContext_result upsertContext_def updateSessionActivity_def
        mergeContext_def mergeList_def spread_def noUpdate_def stringifyColumn_def)
qed

text \<open>
  Claim C1. The claim is that no partial update makes a recorded entry of \<open>errorLogs\<close>
  or \<open>resolvedIssues\<close> disappear. The code does not keep it for a partial update that
  carries the key with the value \<open>undefined\<close>: on an object with no stored context, after
  \<open>addErrorLogs\<close> has stored one log, \<open>updateProjectContext({ errorLogs: undefined })\<close>
  succeeds and leaves the \<open>error_logs\<close> column NULL, so the context read back has no
  error log.
\<close>

theorem updateProjectContext_undefined_drops_errorLogs:
  "(let s1 = snd (addErrorLogs [''TypeError: env.KV is undefined'']
                    ''2024-05-01T09:10:00.000Z'' ''2024-05-01T09:10:00.001Z'' agent0);
        r = updateProjectContext (noUpdate\<lparr> p_errorLogs := Undefined \<rparr>)
              ''2024-05-01T09:20:00.000Z'' ''2024-05-01T09:20:00.001Z'' s1
    in map_option error_logs (project_context s1) =
         Some (Json [''TypeError: env.KV is undefined'']) \<and>
       success (fst r) \<and>
       map_option error_logs (project_context (snd r)) = Some Null \<and>
       map_sum id errorLogs (getProjectContext (snd r)) = Inr None)"
  by (simp add: session_defs context_defs)

subsection \<open>The service tags\<close>

lemma set_addAll: "set (addAll acc xs) = set acc \<union> set xs"
  by (induction xs arbitrary: acc) auto

lemma distinct_addAll: "distinct acc \<Longrightarrow> distinct (addAll acc xs)"
  by (induction xs arbitrary: acc) auto

lemma new_Set_dedup: "distinct (new_Set xs)" "set (new_Set xs) = set xs"
  by (simp_all add: new_Set_def set_addAll distinct_addAll)

text \<open>
  When the stored context has a list of services and the update supplies one, the
  result is their union without duplicates.
\<close>

lemma mergeServices_both:
  "mergeServices (Some ys) (Value xs) = Some zs \<Longrightarrow> distinct zs \<and> set zs = set ys \<union> set xs"
  by (auto simp: mergeServices_def new_Set_dedup)

text \<open>In every state with no stored context, the supplied list is stored as it came.\<close>

lemma updateProjectContext_first_services_any_state:
  assumes "project_context s = None"
  shows "map_option cloudflare_services
           (project_context
              (snd (updateProjectContext (noUpdate\<lparr> p_cloudflareServices := Value xs \<rparr>) now act s))) =
         Some (Json xs)"
proof -
  have "getProjectContext s = Inr emptyContext"
    using assms by (simp add: getProjectContext_def readContext_def one_row_def)
  then show ?thesis
    by (simp add: updateProjectContext_result upsertContext_def updateSessionActivity_def
        mergeContext_def mergeServices_def spread_def noUpdate_def emptyContext_def
        stringifyColumn_def)
qed

text \<open>
  Claim C5. The claim is that a service tag applied twice, also twice within one partial
  update, never leaves duplicates in the stored \<open>cloudflareServices\<close>. The code
  removes duplicates only when the stored context already has a list of services: on an
  object with no stored context \<open>updateProjectContext({ cloudflareServices: ["KV", "KV"] })\<close> succeeds
  and stores the list as it came, with the tag twice.
\<close>

theorem updateProjectContext_first_services_not_deduplicated:
  "(let r = updateProjectContext (noUpdate\<lparr> p_cloudflareServices := Value [KV, KV] \<rparr>)
              ''2024-05-01T09:10:00.000Z'' ''2024-05-01T09:10:00.001Z'' agent0
    in getProjectContext agent0 = Inr emptyContext \<and>
       success (fst r) \<and>
       map_option cloudflare_services (project_context (snd r)) = Some (Json [KV, KV]) \<and>
       map_sum id cloudflareServices (getProjectContext (snd r)) = Inr (Some [KV, KV]) \<and>
       \<not> distinct [KV, KV])"
  by (simp add: session_defs context_defs)

section \<open>Verification of \<open>clearSession\<close>\<close>

text \<open>\<open>ensureSession\<close> returns the stored session or fails; it never writes the table.\<close>

lemma ensureSession_no_row:
  "session_info s = None \<Longrightarrow>
   ensureSession now ms rnd s =
     Inl (Error ''Expected exactly one result from SQL query, but got no results'')"
  by (simp add: ensureSession_def one_row_def)

lemma ensureSession_keeps_table:
  "ensureSession now ms rnd s = Inr (info, s') \<Longrightarrow> session_info s' = session_info s"
  by (auto simp: ensureSession_def one_row_def truthyObject_def Let_def split: option.splits)

text \<open>The constructor fails on an empty storage and succeeds on one that holds a session row.\<close>

lemma new_DevCopilotAgent_emptyStorage:
  "new_DevCopilotAgent now ms rnd emptyStorage =
     Inl (Error ''Expected exactly one result from SQL query, but got no results'')"
  by (simp add: new_DevCopilotAgent_def ensureSession_def one_row_def emptyStorage_def)

lemma new_DevCopilotAgent_seededStorage:
  "new_DevCopilotAgent now ms rnd seededStorage = Inr agent0"
  by (simp add: session_defs)

lemma clearSession_state:
  "snd (clearSession now ms rnd s) = emptyStorage"
  by (simp add: clearSession_def ensureSession_def one_row_def emptyStorage_def Let_def)

text \<open>
  Claim C2. The claim is that after \<open>clearSession()\<close> the history is empty, the
  context is empty and \<open>getSessionInfo\<close> returns a session with \<open>messageCount = 0\<close> and
  a new \<open>sessionId\<close>. The code does not re-create the session: in every state, after
  the three DELETEs \<open>ensureSession()\<close> fails on the empty \<open>session_info\<close> table, the
  \<open>catch\<close> block returns \<open>success: false\<close>, the table stays empty, and
  \<open>getSessionInfo\<close> then fails as well. The history and the context are empty, as
  the claim says.
\<close>

theorem clearSession_leaves_no_session:
  "(let r = clearSession now ms rnd s in
      fst r = \<lparr> success = False,
                error = Some (''Failed to clear session: '' @
                  ''Expected exactly one result from SQL query, but got no results''),
                data = None \<rparr> \<and>
      session_info (snd r) = None \<and>
      getSessionInfo now' ms' rnd' (snd r) =
        Inl (Error ''Expected exactly one result from SQL query, but got no results'') \<and>
      getConversationHistory options act (snd r) = Inr ([], updateSessionActivity act (snd r)) \<and>
      getProjectContext (snd r) = Inr emptyContext)"
proof -
  have res: "fst (clearSession now ms rnd s) =
      \<lparr> success = False,
        error = Some (''Failed to clear session: '' @
          ''Expected exactly one result from SQL query, but got no results''),
        data = None \<rparr>"
    by (simp add: clearSession_def ensureSession_def one_row_def message_def Let_def)
  have tab: "session_info (snd (clearSession now ms rnd s)) = None"
    by (simp add: clearSession_state emptyStorage_def)
  have info: "getSessionInfo now' ms' rnd' (snd (clearSession now ms rnd s)) =
      Inl (Error ''Expected exactly one result from SQL query, but got no results'')"
    unfolding getSessionInfo_def by (rule ensureSession_no_row [OF tab])
  have hist: "getConversationHistory options act (snd (clearSession now ms rnd s)) =
              Inr ([], updateSessionActivity act (snd (clearSession now ms rnd s)))"
    by (simp add: clearSession_state emptyStorage_def getConversationHistory_def runQuery_def
        orderByTimestampDesc_def applyLimit_def split: option.splits)
  have ctx: "getProjectContext (snd (clearSession now ms rnd s)) = Inr emptyContext"
    by (simp add: clearSession_state emptyStorage_def getProjectContext_def readContext_def
        one_row_def)
  show ?thesis
    unfolding Let_def using res tab info hist ctx by blast
qed

end
